theory Spec2Isabelle
  imports Main
begin

section \<open>The persistent store (database.py)\<close>

text \<open>
  The tables of \<^verbatim>\<open>Database.create_tables\<close>.  A table with a primary key is a map from
  the key to the remaining columns; the two tables with a serial key are lists in insertion
  order, the serial column being the position.  BIGINT columns are \<open>int\<close>: Telegram
  identifiers fit in 64 bits.  The \<^verbatim>\<open>created_at\<close> columns, filled by the server clock and
  read by no handler, are left out.

  An identifier that a handler parses out of callback data is any Python integer.  The
  driver encodes a BIGINT argument before it sends the query and raises \<^verbatim>\<open>DataError\<close>
  for an integer outside 64 bits; \<open>in_bigint\<close> is that range.  The query of the
  messages of a chat, which is only ever called with such an identifier, has the check in
  it; the callback handlers that look a chat up make it before the lookup.
\<close>

type_synonym user_id = int
type_synonym chat_id = int
type_synonym timestamp = int

record user_row =
  u_username :: "string option"
  u_first_name :: "string option"
  u_last_name :: "string option"
  u_is_authorized :: bool

record chat_row =
  c_chat_type :: string
  c_title :: "string option"
  c_transcription_enabled :: bool

record message_row =
  m_message_id :: nat
  m_chat_id :: chat_id
  m_user_id :: user_id
  m_message_text :: "string option"
  m_message_date :: timestamp
  m_is_voice :: bool
  m_transcription :: "string option"

record connection_row =
  bc_user_id :: user_id
  bc_user_chat_id :: chat_id
  bc_is_active :: bool

record analysis_row =
  ar_id :: nat
  ar_chat_id :: chat_id
  ar_user_id :: user_id
  ar_analysis_type :: string
  ar_result_text :: string

section \<open>What a handler can do to the outside\<close>

text \<open>
  Exceptions are values.  The texts the bot sends are Cyrillic literals of the source; each
  is a constructor named after it, carrying the parts the source interpolates.
\<close>

datatype exn = AttributeError | IndexError | ValueError | DataError | ServiceError string

datatype keyboard =
    Main_menu_keyboard
  | Chat_actions_keyboard chat_id
  | Chat_settings_keyboard chat_id bool
  | Back_keyboard

datatype title = Title_summary | Title_insights | Title_topics | Title_sentiment | Title_default

datatype reply_text =
    Welcome string
  | Main_menu
  | Not_authorized
  | Transcribing
  | Transcription string
  | Voice_error exn
  | No_messages
  | Analyzing
  | Custom_result string
  | Choose_action
  | Private_stub
  | Groups_stub
  | Channels_stub
  | Settings_stub
  | Chat_not_found
  | Chat_header "string option"
  | Chat_settings_header "string option"
  | Transcription_switched bool
  | Ask_question
  | Analysis_result title string

datatype log_level = Info | Warning | Error

datatype AnalysisStates = Waiting_for_custom_query

record fsm_slot =
  fsm_state :: "AnalysisStates option"
  fsm_chat_id :: "chat_id option"

text \<open>
  Every write to the store, every call of the transport, of the two services and of the
  file system, and every log line is recorded, in order, in the trace.
\<close>

datatype effect =
    Db_add_user user_id
  | Db_add_chat chat_id
  | Db_set_transcription_enabled chat_id bool
  | Db_add_message chat_id
  | Db_add_analysis_result chat_id
  | Db_add_business_connection string
  | Db_remove_business_connection string
  | Get_file string
  | Download_file string string
  | Transcribe_audio string
  | Os_remove string
  | Analyze_messages "message_row list" string
  | Custom_analysis "message_row list" "string option"
  | Message_answer reply_text "keyboard option"
  | Status_edit_text reply_text
  | Send_message chat_id reply_text string int
  | Cb_edit_text reply_text "keyboard option"
  | Cb_edit_reply_markup keyboard
  | Cb_message_answer reply_text "keyboard option"
  | Cb_answer "reply_text option" bool
  | Log log_level

type_synonym fsm_key = nat

record world =
  users :: "user_id \<rightharpoonup> user_row"
  chats :: "chat_id \<rightharpoonup> chat_row"
  messages :: "message_row list"
  business_connections :: "string \<rightharpoonup> connection_row"
  analysis_results :: "analysis_row list"
  files :: "string set"
  fsm :: "fsm_key \<Rightarrow> fsm_slot"
  trace :: "effect list"

definition emit :: "effect \<Rightarrow> world \<Rightarrow> world" where
  "emit e w = w\<lparr>trace := trace w @ [e]\<rparr>"

subsection \<open>User operations\<close>

definition add_user ::
  "user_id \<Rightarrow> string option \<Rightarrow> string option \<Rightarrow> string option \<Rightarrow> world \<Rightarrow> world" where
  "add_user uid username first_name last_name w =
     emit (Db_add_user uid)
       (w\<lparr>users := (users w)(uid \<mapsto>
            \<lparr>u_username = username, u_first_name = first_name,
             u_last_name = last_name, u_is_authorized = True\<rparr>)\<rparr>)"

definition get_user :: "user_id \<Rightarrow> world \<Rightarrow> user_row option" where
  "get_user uid w = users w uid"

definition is_user_authorized :: "user_id \<Rightarrow> world \<Rightarrow> bool" where
  "is_user_authorized uid w =
     (case get_user uid w of None \<Rightarrow> False | Some user \<Rightarrow> u_is_authorized user)"

subsection \<open>Chat operations\<close>

definition add_chat :: "chat_id \<Rightarrow> string \<Rightarrow> string option \<Rightarrow> world \<Rightarrow> world" where
  "add_chat cid chat_type title w =
     emit (Db_add_chat cid)
       (w\<lparr>chats := (chats w)(cid \<mapsto>
            (case chats w cid of
               None \<Rightarrow> \<lparr>c_chat_type = chat_type, c_title = title,
                         c_transcription_enabled = True\<rparr>
             | Some row \<Rightarrow> row\<lparr>c_chat_type := chat_type, c_title := title\<rparr>))\<rparr>)"

definition get_chat :: "chat_id \<Rightarrow> world \<Rightarrow> chat_row option" where
  "get_chat cid w = chats w cid"

definition set_transcription_enabled :: "chat_id \<Rightarrow> bool \<Rightarrow> world \<Rightarrow> world" where
  "set_transcription_enabled cid enabled w =
     emit (Db_set_transcription_enabled cid enabled)
       (case chats w cid of
          None \<Rightarrow> w
        | Some row \<Rightarrow> w\<lparr>chats := (chats w)(cid \<mapsto> row\<lparr>c_transcription_enabled := enabled\<rparr>)\<rparr>)"

definition is_transcription_enabled :: "chat_id \<Rightarrow> world \<Rightarrow> bool" where
  "is_transcription_enabled cid w =
     (case get_chat cid w of None \<Rightarrow> True | Some chat \<Rightarrow> c_transcription_enabled chat)"

subsection \<open>Message operations\<close>

definition add_message ::
  "chat_id \<Rightarrow> user_id \<Rightarrow> string option \<Rightarrow> timestamp \<Rightarrow> bool \<Rightarrow> string option \<Rightarrow> world \<Rightarrow> world" where
  "add_message cid uid message_text message_date is_voice transcription w =
     emit (Db_add_message cid)
       (w\<lparr>messages := messages w @
            [\<lparr>m_message_id = Suc (length (messages w)), m_chat_id = cid, m_user_id = uid,
              m_message_text = message_text, m_message_date = message_date,
              m_is_voice = is_voice, m_transcription = transcription\<rparr>]\<rparr>)"

definition in_bigint :: "int \<Rightarrow> bool" where
  "in_bigint n = (- 9223372036854775808 \<le> n \<and> n \<le> 9223372036854775807)"

text \<open>
  \<^verbatim>\<open>ORDER BY message_date DESC LIMIT n\<close>.  SQL leaves the order of rows with equal dates
  open: it is a parameter, the key \<open>tie\<close> by which the server happens to arrange such
  rows.  The rows are arranged by \<open>tie\<close> and then sorted by date with a stable sort, so
  every \<open>tie\<close> gives an answer in descending order of date, and, the rows being
  distinct, every order of the rows with equal dates is the answer for some \<open>tie\<close>.
\<close>

definition get_chat_messages ::
  "(message_row \<Rightarrow> int) \<Rightarrow> chat_id \<Rightarrow> nat \<Rightarrow> world \<Rightarrow> exn + message_row list" where
  "get_chat_messages tie cid limit w =
     (if in_bigint cid then
        Inr (take limit
               (rev (sort_key m_message_date
                       (sort_key tie (filter (\<lambda>r. m_chat_id r = cid) (messages w))))))
      else Inl DataError)"

subsection \<open>Analysis operations\<close>

definition add_analysis_result :: "chat_id \<Rightarrow> user_id \<Rightarrow> string \<Rightarrow> string \<Rightarrow> world \<Rightarrow> world" where
  "add_analysis_result cid uid analysis_type result_text w =
     emit (Db_add_analysis_result cid)
       (w\<lparr>analysis_results := analysis_results w @
            [\<lparr>ar_id = Suc (length (analysis_results w)), ar_chat_id = cid, ar_user_id = uid,
              ar_analysis_type = analysis_type, ar_result_text = result_text\<rparr>]\<rparr>)"

subsection \<open>Business connection operations\<close>

definition add_business_connection :: "string \<Rightarrow> user_id \<Rightarrow> chat_id \<Rightarrow> world \<Rightarrow> world" where
  "add_business_connection connection_id uid user_chat_id w =
     emit (Db_add_business_connection connection_id)
       (w\<lparr>business_connections := (business_connections w)(connection_id \<mapsto>
            \<lparr>bc_user_id = uid, bc_user_chat_id = user_chat_id, bc_is_active = True\<rparr>)\<rparr>)"

definition remove_business_connection :: "string \<Rightarrow> world \<Rightarrow> world" where
  "remove_business_connection connection_id w =
     emit (Db_remove_business_connection connection_id)
       (case business_connections w connection_id of
          None \<Rightarrow> w
        | Some row \<Rightarrow>
            w\<lparr>business_connections :=
                (business_connections w)(connection_id \<mapsto> row\<lparr>bc_is_active := False\<rparr>)\<rparr>)"

definition get_business_connection :: "string \<Rightarrow> world \<Rightarrow> connection_row option" where
  "get_business_connection connection_id w =
     (case business_connections w connection_id of
        None \<Rightarrow> None
      | Some row \<Rightarrow> if bc_is_active row then Some row else None)"

section \<open>Inbound events and the external services (bot.py)\<close>

record tg_user =
  tu_id :: user_id
  tu_username :: "string option"
  tu_first_name :: string
  tu_last_name :: "string option"

record tg_chat =
  tc_id :: chat_id
  tc_type :: string
  tc_title :: "string option"
  tc_first_name :: "string option"

text \<open>
  A voice attachment is its \<^verbatim>\<open>file_id\<close>, the only field the handlers read.  The
  handlers use the date of a message in one form only,
  \<^verbatim>\<open>datetime.fromtimestamp(message.date.timestamp())\<close>, the naive local date and time:
  \<open>msg_date\<close> is that value, as a number, and it is what the store keeps and orders by.
  The FSM context that the dispatcher hands to a handler is the key of its slot in the
  memory storage.
\<close>

record tg_message =
  msg_message_id :: int
  msg_from_user :: "tg_user option"
  msg_chat :: tg_chat
  msg_date :: timestamp
  msg_text :: "string option"
  msg_voice :: "string option"
  msg_business_connection_id :: "string option"

record callback_query =
  cb_from_user :: tg_user
  cb_data :: string
  cb_message :: "tg_message option"

record business_connection =
  bcn_id :: string
  bcn_user :: tg_user
  bcn_user_chat_id :: chat_id
  bcn_is_enabled :: bool

text \<open>
  The modules \<^verbatim>\<open>whisper_client\<close> and \<^verbatim>\<open>ai_client\<close> and the transport's file download
  are parameters: what each call answers, an exception (\<open>Inl\<close>) or a value.  The calls
  that send or edit a message and the calls of the store are taken to succeed, but for the
  \<^verbatim>\<open>DataError\<close> of an identifier out of range.  A download opens the destination file
  before it reads the stream, so the file is there whether the download succeeds or
  fails.  \<open>row_order\<close> is the key by which the server arranges rows of equal date.
\<close>

record env =
  get_file :: "string \<Rightarrow> exn + string"
  download_file :: "string \<Rightarrow> string \<Rightarrow> exn option"
  transcribe_audio :: "string \<Rightarrow> exn + string"
  analyze_messages :: "message_row list \<Rightarrow> string \<Rightarrow> exn + string"
  custom_analysis :: "message_row list \<Rightarrow> string option \<Rightarrow> exn + string"
  row_order :: "message_row \<Rightarrow> int"

datatype outcome = Returned | Raised exn

text \<open>Python's \<^verbatim>\<open>a or b\<close> on optional strings: \<^verbatim>\<open>None\<close> and the empty string are falsy.\<close>

definition py_or :: "string option \<Rightarrow> string option \<Rightarrow> string option" where
  "py_or a b = (case a of None \<Rightarrow> b | Some x \<Rightarrow> if x = [] then b else Some x)"

definition voice_path_of :: "string \<Rightarrow> string" where
  "voice_path_of file_id = ''/tmp/voice_'' @ file_id @ ''.ogg''"

definition os_remove :: "string \<Rightarrow> world \<Rightarrow> world" where
  "os_remove path w = emit (Os_remove path) (w\<lparr>files := files w - {path}\<rparr>)"

definition state_clear :: "fsm_key \<Rightarrow> world \<Rightarrow> world" where
  "state_clear ctx w = w\<lparr>fsm := (fsm w)(ctx := \<lparr>fsm_state = None, fsm_chat_id = None\<rparr>)\<rparr>"

definition state_set_custom :: "fsm_key \<Rightarrow> chat_id \<Rightarrow> world \<Rightarrow> world" where
  "state_set_custom ctx cid w =
     w\<lparr>fsm := (fsm w)(ctx := \<lparr>fsm_state = Some Waiting_for_custom_query,
                               fsm_chat_id = Some cid\<rparr>)\<rparr>"

subsection \<open>Commands\<close>

definition cmd_start :: "tg_message \<Rightarrow> world \<Rightarrow> outcome \<times> world" where
  "cmd_start message w =
     (case msg_from_user message of
        None \<Rightarrow> (Raised AttributeError, w)
      | Some user \<Rightarrow>
          let w1 = add_user (tu_id user) (tu_username user) (Some (tu_first_name user))
                     (tu_last_name user) w
          in (Returned,
              emit (Message_answer (Welcome (tu_first_name user)) (Some Main_menu_keyboard)) w1))"

definition cmd_menu :: "tg_message \<Rightarrow> world \<Rightarrow> outcome \<times> world" where
  "cmd_menu message w = (Returned, emit (Message_answer Main_menu (Some Main_menu_keyboard)) w)"

subsection \<open>Voice messages\<close>

text \<open>The \<^verbatim>\<open>except Exception\<close> branch of \<^verbatim>\<open>handle_voice\<close>.\<close>

definition voice_except :: "exn \<Rightarrow> world \<Rightarrow> outcome \<times> world" where
  "voice_except e w = (Returned, emit (Message_answer (Voice_error e) None) (emit (Log Error) w))"

text \<open>The \<^verbatim>\<open>try\<close> block of \<^verbatim>\<open>handle_voice\<close>: each failing call jumps to the handler.\<close>

definition voice_try :: "env \<Rightarrow> tg_message \<Rightarrow> chat_id \<Rightarrow> user_id \<Rightarrow> world \<Rightarrow> outcome \<times> world" where
  "voice_try ev message cid uid w =
     (case msg_voice message of
        None \<Rightarrow> voice_except AttributeError w
      | Some file_id \<Rightarrow>
          let w1 = emit (Get_file file_id) w in
          (case get_file ev file_id of
             Inl e \<Rightarrow> voice_except e w1
           | Inr file_path \<Rightarrow>
               let voice_path = voice_path_of file_id;
                   w2 = emit (Download_file file_path voice_path) w1;
                   w3 = w2\<lparr>files := insert voice_path (files w2)\<rparr> in
               (case download_file ev file_path voice_path of
                  Some e \<Rightarrow> voice_except e w3
                | None \<Rightarrow>
                    let w4 = emit (Message_answer Transcribing None) w3;
                        w5 = emit (Transcribe_audio voice_path) w4 in
                    (case transcribe_audio ev voice_path of
                       Inl e \<Rightarrow> voice_except e w5
                     | Inr transcription \<Rightarrow>
                         let w6 = (if voice_path \<in> files w5 then os_remove voice_path w5 else w5);
                             w7 = add_message cid uid None (msg_date message) True
                                    (Some transcription) w6
                         in (Returned, emit (Status_edit_text (Transcription transcription)) w7)))))"

definition handle_voice :: "env \<Rightarrow> tg_message \<Rightarrow> world \<Rightarrow> outcome \<times> world" where
  "handle_voice ev message w =
     (case msg_from_user message of
        None \<Rightarrow> (Raised AttributeError, w)
      | Some user \<Rightarrow>
          let uid = tu_id user; cid = tc_id (msg_chat message) in
          if \<not> is_user_authorized uid w then
            (Returned, emit (Message_answer Not_authorized None) w)
          else if \<not> is_transcription_enabled cid w then
            (Returned, add_message cid uid None (msg_date message) True None w)
          else
            voice_try ev message cid uid
              (add_chat cid (tc_type (msg_chat message))
                 (py_or (tc_title (msg_chat message)) (tc_first_name (msg_chat message))) w))"

subsection \<open>Text messages\<close>

text \<open>
  A pending state whose data holds no chat id makes the query compare \<^verbatim>\<open>chat_id\<close> with
  \<^verbatim>\<open>NULL\<close>, which selects no row.
\<close>

definition handle_text :: "env \<Rightarrow> fsm_key \<Rightarrow> tg_message \<Rightarrow> world \<Rightarrow> outcome \<times> world" where
  "handle_text ev ctx message w =
     (case msg_from_user message of
        None \<Rightarrow> (Raised AttributeError, w)
      | Some user \<Rightarrow>
          let uid = tu_id user; cid = tc_id (msg_chat message) in
          if fsm_state (fsm w ctx) = Some Waiting_for_custom_query then
            (let no_history = (Returned, state_clear ctx (emit (Message_answer No_messages None) w)) in
             case fsm_chat_id (fsm w ctx) of
               None \<Rightarrow> no_history
             | Some target_chat_id \<Rightarrow>
                 (case get_chat_messages (row_order ev) target_chat_id 300 w of
                    Inl e \<Rightarrow> (Raised e, w)
                  | Inr msgs \<Rightarrow>
                      if msgs = [] then no_history
                      else
                        let query = msg_text message;
                            w1 = emit (Message_answer Analyzing None) w;
                            w2 = emit (Custom_analysis msgs query) w1 in
                        (case custom_analysis ev msgs query of
                           Inl e \<Rightarrow> (Raised e, w2)
                         | Inr result \<Rightarrow>
                             let w3 = add_analysis_result target_chat_id uid ''custom'' result w2;
                                 w4 = emit (Status_edit_text (Custom_result result)) w3;
                                 w5 = emit (Message_answer Choose_action
                                        (Some (Chat_actions_keyboard target_chat_id))) w4
                             in (Returned, state_clear ctx w5))))
          else if \<not> is_user_authorized uid w then (Returned, w)
          else
            let w1 = add_chat cid (tc_type (msg_chat message))
                       (py_or (tc_title (msg_chat message)) (tc_first_name (msg_chat message))) w
            in (Returned, add_message cid uid (msg_text message) (msg_date message) False None w1))"

subsection \<open>Callback data\<close>

text \<open>
  \<^verbatim>\<open>str.split(sep)\<close>, \<^verbatim>\<open>str.startswith\<close> and \<^verbatim>\<open>int(str)\<close> on ASCII strings:
  \<^verbatim>\<open>int\<close> strips white space (on an ASCII string the characters 9 to 13 and the
  blank), takes one optional sign and then needs decimal digits only; anything else is
  \<^verbatim>\<open>ValueError\<close> (\<open>None\<close>).  (Python also takes single
  underscores between digits; \<open>py_int\<close> is applied to the pieces of a split at
  underscores only.)
\<close>

fun split :: "char \<Rightarrow> string \<Rightarrow> string list" where
  "split sep [] = [[]]"
| "split sep (c # cs) =
     (if c = sep then [] # split sep cs
      else (case split sep cs of [] \<Rightarrow> [[c]] | p # ps \<Rightarrow> (c # p) # ps))"

definition startswith :: "string \<Rightarrow> string \<Rightarrow> bool" where
  "startswith s p = (take (length p) s = p)"

definition is_space :: "char \<Rightarrow> bool" where
  "is_space c = (let n = (of_char c :: nat) in (9 \<le> n \<and> n \<le> 13) \<or> n = 32)"

definition is_digit :: "char \<Rightarrow> bool" where
  "is_digit c = (let n = (of_char c :: nat) in 48 \<le> n \<and> n \<le> 57)"

definition strip :: "string \<Rightarrow> string" where
  "strip s = rev (dropWhile is_space (rev (dropWhile is_space s)))"

definition digits_value :: "string \<Rightarrow> int" where
  "digits_value ds = foldl (\<lambda>a c. 10 * a + (int (of_char c) - 48)) 0 ds"

definition py_int :: "string \<Rightarrow> int option" where
  "py_int s =
     (let t = strip s;
          (sign, ds) = (case t of
                          [] \<Rightarrow> (1, [])
                        | c # cs \<Rightarrow> if c = CHR ''-'' then (- 1, cs)
                                    else if c = CHR ''+'' then (1, cs) else (1, t))
      in if ds \<noteq> [] \<and> list_all is_digit ds then Some (sign * digits_value ds) else None)"

text \<open>\<^verbatim>\<open>int(callback.data.split("_")[2])\<close>, with its two ways to raise.\<close>

definition chat_id_of_data :: "string \<Rightarrow> exn + chat_id" where
  "chat_id_of_data d =
     (let parts = split CHR ''_'' d in
      if length parts < 3 then Inl IndexError
      else (case py_int (parts ! 2) of None \<Rightarrow> Inl ValueError | Some n \<Rightarrow> Inr n))"

subsection \<open>Callback queries\<close>

text \<open>
  A call on \<^verbatim>\<open>callback.message\<close> raises \<^verbatim>\<open>AttributeError\<close> when the query carries
  no message.
\<close>

definition on_message :: "callback_query \<Rightarrow> effect \<Rightarrow> world \<Rightarrow> exn + world" where
  "on_message callback e w =
     (case cb_message callback of None \<Rightarrow> Inl AttributeError | Some _ \<Rightarrow> Inr (emit e w))"

definition stub_page :: "callback_query \<Rightarrow> reply_text \<Rightarrow> world \<Rightarrow> outcome \<times> world" where
  "stub_page callback page w =
     (case on_message callback (Cb_edit_text page (Some Back_keyboard)) w of
        Inl e \<Rightarrow> (Raised e, w)
      | Inr w1 \<Rightarrow> (Returned, emit (Cb_answer None False) w1))"

definition callback_back_to_menu :: "fsm_key \<Rightarrow> callback_query \<Rightarrow> world \<Rightarrow> outcome \<times> world" where
  "callback_back_to_menu ctx callback w =
     (let w1 = state_clear ctx w in
      case on_message callback (Cb_edit_text Main_menu (Some Main_menu_keyboard)) w1 of
        Inl e \<Rightarrow> (Raised e, w1)
      | Inr w2 \<Rightarrow> (Returned, emit (Cb_answer None False) w2))"

definition callback_list_private :: "callback_query \<Rightarrow> world \<Rightarrow> outcome \<times> world" where
  "callback_list_private callback w = stub_page callback Private_stub w"

definition callback_list_groups :: "callback_query \<Rightarrow> world \<Rightarrow> outcome \<times> world" where
  "callback_list_groups callback w = stub_page callback Groups_stub w"

definition callback_list_channels :: "callback_query \<Rightarrow> world \<Rightarrow> outcome \<times> world" where
  "callback_list_channels callback w = stub_page callback Channels_stub w"

definition callback_settings :: "callback_query \<Rightarrow> world \<Rightarrow> outcome \<times> world" where
  "callback_settings callback w = stub_page callback Settings_stub w"

definition callback_chat_actions :: "callback_query \<Rightarrow> world \<Rightarrow> outcome \<times> world" where
  "callback_chat_actions callback w =
     (case chat_id_of_data (cb_data callback) of
        Inl e \<Rightarrow> (Raised e, w)
      | Inr cid \<Rightarrow>
          if \<not> in_bigint cid then (Raised DataError, w)
          else
          (case get_chat cid w of
             None \<Rightarrow> (Returned, emit (Cb_answer (Some Chat_not_found) True) w)
           | Some chat \<Rightarrow>
               (case on_message callback
                       (Cb_edit_text (Chat_header (c_title chat))
                          (Some (Chat_actions_keyboard cid))) w of
                  Inl e \<Rightarrow> (Raised e, w)
                | Inr w1 \<Rightarrow> (Returned, emit (Cb_answer None False) w1))))"

definition callback_chat_settings :: "callback_query \<Rightarrow> world \<Rightarrow> outcome \<times> world" where
  "callback_chat_settings callback w =
     (case chat_id_of_data (cb_data callback) of
        Inl e \<Rightarrow> (Raised e, w)
      | Inr cid \<Rightarrow>
          if \<not> in_bigint cid then (Raised DataError, w)
          else
          (case get_chat cid w of
             None \<Rightarrow> (Returned, emit (Cb_answer (Some Chat_not_found) True) w)
           | Some chat \<Rightarrow>
               (case on_message callback
                       (Cb_edit_text (Chat_settings_header (c_title chat))
                          (Some (Chat_settings_keyboard cid (c_transcription_enabled chat)))) w of
                  Inl e \<Rightarrow> (Raised e, w)
                | Inr w1 \<Rightarrow> (Returned, emit (Cb_answer None False) w1))))"

definition callback_toggle_transcription :: "callback_query \<Rightarrow> world \<Rightarrow> outcome \<times> world" where
  "callback_toggle_transcription callback w =
     (case chat_id_of_data (cb_data callback) of
        Inl e \<Rightarrow> (Raised e, w)
      | Inr cid \<Rightarrow>
          if \<not> in_bigint cid then (Raised DataError, w)
          else
          (case get_chat cid w of
             None \<Rightarrow> (Returned, emit (Cb_answer (Some Chat_not_found) True) w)
           | Some chat \<Rightarrow>
               let new_state = (\<not> c_transcription_enabled chat);
                   w1 = set_transcription_enabled cid new_state w in
               (case on_message callback
                       (Cb_edit_reply_markup (Chat_settings_keyboard cid new_state)) w1 of
                  Inl e \<Rightarrow> (Raised e, w1)
                | Inr w2 \<Rightarrow>
                    (Returned, emit (Cb_answer (Some (Transcription_switched new_state)) False) w2))))"

definition titles :: "string \<Rightarrow> title" where
  "titles analysis_type =
     (if analysis_type = ''summary'' then Title_summary
      else if analysis_type = ''insights'' then Title_insights
      else if analysis_type = ''topics'' then Title_topics
      else if analysis_type = ''sentiment'' then Title_sentiment
      else Title_default)"

definition callback_analyze :: "env \<Rightarrow> fsm_key \<Rightarrow> callback_query \<Rightarrow> world \<Rightarrow> outcome \<times> world" where
  "callback_analyze ev ctx callback w =
     (let parts = split CHR ''_'' (cb_data callback) in
      if length parts < 2 then (Raised IndexError, w)
      else
        let analysis_type = parts ! 1 in
        (case chat_id_of_data (cb_data callback) of
           Inl e \<Rightarrow> (Raised e, w)
         | Inr cid \<Rightarrow>
             let uid = tu_id (cb_from_user callback) in
             if analysis_type = ''custom'' then
               (let w1 = state_set_custom ctx cid w in
                case on_message callback (Cb_message_answer Ask_question None) w1 of
                  Inl e \<Rightarrow> (Raised e, w1)
                | Inr w2 \<Rightarrow> (Returned, emit (Cb_answer None False) w2))
             else
               (case get_chat_messages (row_order ev) cid 300 w of
                  Inl e \<Rightarrow> (Raised e, w)
                | Inr msgs \<Rightarrow>
                    if msgs = [] then (Returned, emit (Cb_answer (Some No_messages) True) w)
                    else
                      (case on_message callback (Cb_edit_text Analyzing None) w of
                         Inl e \<Rightarrow> (Raised e, w)
                       | Inr w1 \<Rightarrow>
                           let w2 = emit (Analyze_messages msgs analysis_type) w1 in
                           (case analyze_messages ev msgs analysis_type of
                              Inl e \<Rightarrow> (Raised e, w2)
                            | Inr result \<Rightarrow>
                                let w3 = add_analysis_result cid uid analysis_type result w2;
                                    w4 = emit (Cb_edit_text
                                           (Analysis_result (titles analysis_type) result) None)
                                           w3;
                                    w5 = emit (Cb_message_answer Choose_action
                                           (Some (Chat_actions_keyboard cid))) w4
                                in (Returned, emit (Cb_answer None False) w5))))))"

text \<open>
  The callback handlers in the order the source registers them; the first whose filter
  accepts the data runs, and data that no filter accepts is not handled.
\<close>

definition dp_callback_query :: "env \<Rightarrow> fsm_key \<Rightarrow> callback_query \<Rightarrow> world \<Rightarrow> outcome \<times> world" where
  "dp_callback_query ev ctx callback w =
     (let d = cb_data callback in
      if d = ''back_to_menu'' then callback_back_to_menu ctx callback w
      else if d = ''list_private'' then callback_list_private callback w
      else if d = ''list_groups'' then callback_list_groups callback w
      else if d = ''list_channels'' then callback_list_channels callback w
      else if d = ''settings'' then callback_settings callback w
      else if startswith d ''chat_actions_'' then callback_chat_actions callback w
      else if startswith d ''chat_settings_'' then callback_chat_settings callback w
      else if startswith d ''toggle_transcription_'' then callback_toggle_transcription callback w
      else if startswith d ''analyze_'' then callback_analyze ev ctx callback w
      else (Returned, w))"

subsection \<open>Telegram Business\<close>

definition handle_business_connection :: "business_connection \<Rightarrow> world \<Rightarrow> outcome \<times> world" where
  "handle_business_connection bc w =
     (let w1 = emit (Log Info) w in
      if bcn_is_enabled bc then
        (Returned, emit (Log Info)
           (add_business_connection (bcn_id bc) (tu_id (bcn_user bc)) (bcn_user_chat_id bc) w1))
      else
        (Returned, emit (Log Info) (remove_business_connection (bcn_id bc) w1)))"

text \<open>\<^verbatim>\<open>message.from_user.id if message.from_user else 0\<close>\<close>

definition business_user_id :: "tg_message \<Rightarrow> user_id" where
  "business_user_id message = (case msg_from_user message of None \<Rightarrow> 0 | Some user \<Rightarrow> tu_id user)"

definition business_title :: "tg_message \<Rightarrow> string option" where
  "business_title message =
     py_or (py_or (tc_title (msg_chat message)) (tc_first_name (msg_chat message)))
       (Some ''Business Chat'')"

definition business_voice_except ::
  "tg_message \<Rightarrow> chat_id \<Rightarrow> string \<Rightarrow> exn \<Rightarrow> world \<Rightarrow> outcome \<times> world" where
  "business_voice_except message cid conn e w =
     (Returned,
      emit (Send_message cid (Voice_error e) conn (msg_message_id message)) (emit (Log Error) w))"

definition business_voice_try ::
  "env \<Rightarrow> tg_message \<Rightarrow> chat_id \<Rightarrow> user_id \<Rightarrow> string \<Rightarrow> world \<Rightarrow> outcome \<times> world" where
  "business_voice_try ev message cid uid conn w =
     (case msg_voice message of
        None \<Rightarrow> business_voice_except message cid conn AttributeError w
      | Some file_id \<Rightarrow>
          let w1 = emit (Get_file file_id) w in
          (case get_file ev file_id of
             Inl e \<Rightarrow> business_voice_except message cid conn e w1
           | Inr file_path \<Rightarrow>
               let voice_path = voice_path_of file_id;
                   w2 = emit (Download_file file_path voice_path) w1;
                   w3 = w2\<lparr>files := insert voice_path (files w2)\<rparr> in
               (case download_file ev file_path voice_path of
                  Some e \<Rightarrow> business_voice_except message cid conn e w3
                | None \<Rightarrow>
                    let w4 = emit (Log Info) w3;
                        w5 = emit (Transcribe_audio voice_path) w4 in
                    (case transcribe_audio ev voice_path of
                       Inl e \<Rightarrow> business_voice_except message cid conn e w5
                     | Inr transcription \<Rightarrow>
                         let w6 = (if voice_path \<in> files w5 then os_remove voice_path w5 else w5);
                             w7 = add_message cid uid None (msg_date message) True
                                    (Some transcription) w6;
                             w8 = emit (Send_message cid (Transcription transcription) conn
                                    (msg_message_id message)) w7
                         in (Returned, emit (Log Info) w8)))))"

definition handle_business_voice :: "env \<Rightarrow> tg_message \<Rightarrow> world \<Rightarrow> outcome \<times> world" where
  "handle_business_voice ev message w =
     (case msg_business_connection_id message of
        None \<Rightarrow> (Returned, w)
      | Some conn \<Rightarrow>
          if conn = [] then (Returned, w)
          else
            (case get_business_connection conn w of
               None \<Rightarrow> (Returned, emit (Log Warning) w)
             | Some connection \<Rightarrow>
                 let cid = tc_id (msg_chat message); uid = business_user_id message in
                 if \<not> is_transcription_enabled cid w then
                   (Returned, add_message cid uid None (msg_date message) True None w)
                 else
                   business_voice_try ev message cid uid conn
                     (add_chat cid ''business'' (business_title message) w)))"

definition handle_business_text :: "tg_message \<Rightarrow> world \<Rightarrow> outcome \<times> world" where
  "handle_business_text message w =
     (case msg_business_connection_id message of
        None \<Rightarrow> (Returned, w)
      | Some conn \<Rightarrow>
          if conn = [] then (Returned, w)
          else
            (case get_business_connection conn w of
               None \<Rightarrow> (Returned, w)
             | Some connection \<Rightarrow>
                 let cid = tc_id (msg_chat message); uid = business_user_id message;
                     w1 = add_chat cid ''business'' (business_title message) w
                 in (Returned,
                     add_message cid uid (msg_text message) (msg_date message) False None w1)))"

section \<open>Properties of a run\<close>

text \<open>What a handler added to the trace.\<close>

definition new_effects :: "world \<Rightarrow> world \<Rightarrow> effect list" where
  "new_effects w w' = drop (length (trace w)) (trace w')"

text \<open>The message rows a handler added to the store.\<close>

definition new_messages :: "world \<Rightarrow> world \<Rightarrow> message_row list" where
  "new_messages w w' = drop (length (messages w)) (messages w')"

text \<open>
  Along a list of effects, every message insert finds a row of its chat: one that is in
  the set \<open>K\<close> of chats known at the start, or one upserted earlier in the list.  No
  operation of the store deletes a chat.
\<close>

fun chat_known_at_insert :: "chat_id set \<Rightarrow> effect list \<Rightarrow> bool" where
  "chat_known_at_insert K [] = True"
| "chat_known_at_insert K (e # es) =
     (case e of
        Db_add_chat c \<Rightarrow> chat_known_at_insert (insert c K) es
      | Db_add_message c \<Rightarrow> c \<in> K \<and> chat_known_at_insert K es
      | _ \<Rightarrow> chat_known_at_insert K es)"

definition touches_audio :: "effect \<Rightarrow> bool" where
  "touches_audio e =
     (case e of Get_file _ \<Rightarrow> True | Download_file _ _ \<Rightarrow> True | Transcribe_audio _ \<Rightarrow> True
      | _ \<Rightarrow> False)"

definition calls_analysis :: "effect \<Rightarrow> bool" where
  "calls_analysis e =
     (case e of Analyze_messages _ _ \<Rightarrow> True | Custom_analysis _ _ \<Rightarrow> True | _ \<Rightarrow> False)"

section \<open>Example inputs\<close>

definition empty_world :: world where
  "empty_world = \<lparr>users = Map.empty, chats = Map.empty, messages = [],
     business_connections = Map.empty, analysis_results = [], files = {},
     fsm = (\<lambda>_. \<lparr>fsm_state = None, fsm_chat_id = None\<rparr>), trace = []\<rparr>"

definition alice :: tg_user where
  "alice = \<lparr>tu_id = 42, tu_username = None, tu_first_name = ''Alice'', tu_last_name = None\<rparr>"

definition alice_chat :: tg_chat where
  "alice_chat =
     \<lparr>tc_id = 42, tc_type = ''private'', tc_title = None, tc_first_name = Some ''Alice''\<rparr>"

definition voice_message :: tg_message where
  "voice_message = \<lparr>msg_message_id = 7, msg_from_user = Some alice, msg_chat = alice_chat,
     msg_date = 1000, msg_text = None, msg_voice = Some ''abc'',
     msg_business_connection_id = None\<rparr>"

definition text_message :: tg_message where
  "text_message = \<lparr>msg_message_id = 8, msg_from_user = Some alice, msg_chat = alice_chat,
     msg_date = 1001, msg_text = Some ''what did we discuss?'', msg_voice = None,
     msg_business_connection_id = None\<rparr>"

definition env_ok :: env where
  "env_ok = \<lparr>get_file = (\<lambda>_. Inr ''voice/file_1.oga''), download_file = (\<lambda>_ _. None),
     transcribe_audio = (\<lambda>_. Inr ''hello world''),
     analyze_messages = (\<lambda>_ _. Inr ''a result''),
     custom_analysis = (\<lambda>_ _. Inr ''an answer''),
     row_order = (\<lambda>r. int (m_message_id r))\<rparr>"

definition env_whisper_down :: env where
  "env_whisper_down = env_ok\<lparr>transcribe_audio := (\<lambda>_. Inl (ServiceError ''whisper down''))\<rparr>"

text \<open>Alice after \<^verbatim>\<open>/start\<close>; the same with her chat stored and its transcription off.\<close>

definition alice_authorized :: world where
  "alice_authorized = snd (cmd_start text_message empty_world)"

definition alice_muted :: world where
  "alice_muted =
     set_transcription_enabled 42 False (add_chat 42 ''private'' (Some ''Alice'') alice_authorized)"

definition stranger_muted :: world where
  "stranger_muted =
     set_transcription_enabled 42 False (add_chat 42 ''private'' (Some ''Alice'') empty_world)"

text \<open>A business connection \<^verbatim>\<open>biz1\<close>, enabled and then disabled, and a relayed voice note
  without a sender.\<close>

definition biz_enable :: business_connection where
  "biz_enable = \<lparr>bcn_id = ''biz1'', bcn_user = alice, bcn_user_chat_id = 42,
     bcn_is_enabled = True\<rparr>"

definition biz_disable :: business_connection where
  "biz_disable = biz_enable\<lparr>bcn_is_enabled := False\<rparr>"

definition biz_world :: world where
  "biz_world = snd (handle_business_connection biz_enable empty_world)"

definition biz_voice_message :: tg_message where
  "biz_voice_message = \<lparr>msg_message_id = 9, msg_from_user = None,
     msg_chat = \<lparr>tc_id = 77, tc_type = ''private'', tc_title = None, tc_first_name = None\<rparr>,
     msg_date = 1002, msg_text = None, msg_voice = Some ''abc'',
     msg_business_connection_id = Some ''biz1''\<rparr>"

definition biz_text_message :: tg_message where
  "biz_text_message = biz_voice_message\<lparr>msg_text := Some ''hello'', msg_voice := None\<rparr>"

definition biz_muted :: world where
  "biz_muted =
     set_transcription_enabled 77 False (add_chat 77 ''business'' (Some ''Business Chat'') biz_world)"

text \<open>Chat 100 with two stored messages and no user at all; a pending custom query for
  it; a press of the summary button, and of the same button for a chat without history.\<close>

definition chat100_world :: world where
  "chat100_world =
     add_message 100 7 (Some ''second'') 501 False None
       (add_message 100 7 (Some ''first'') 500 False None empty_world)"

definition chat100_pending :: world where
  "chat100_pending = state_set_custom 0 100 chat100_world"

definition summary_query :: callback_query where
  "summary_query = \<lparr>cb_from_user = alice, cb_data = ''analyze_summary_100'',
     cb_message = Some text_message\<rparr>"

section \<open>Theorems\<close>

lemmas db_defs = emit_def add_user_def get_user_def is_user_authorized_def add_chat_def
  get_chat_def set_transcription_enabled_def is_transcription_enabled_def add_message_def
  add_analysis_result_def add_business_connection_def remove_business_connection_def
  get_business_connection_def

lemmas handler_defs = cmd_start_def cmd_menu_def voice_except_def voice_try_def handle_voice_def
  handle_text_def handle_business_connection_def business_user_id_def business_title_def
  business_voice_except_def business_voice_try_def handle_business_voice_def
  handle_business_text_def py_or_def voice_path_of_def os_remove_def state_clear_def
  state_set_custom_def

lemmas fixtures = empty_world_def alice_def alice_chat_def voice_message_def text_message_def
  env_ok_def env_whisper_down_def alice_authorized_def alice_muted_def stranger_muted_def
  biz_enable_def biz_disable_def biz_world_def biz_voice_message_def biz_text_message_def
  chat100_world_def chat100_pending_def summary_query_def biz_muted_def

lemmas parse_defs = chat_id_of_data_def py_int_def strip_def is_space_def is_digit_def
  digits_value_def

subsection \<open>The temporary audio file\<close>

text \<open>
  Once the download has succeeded, the file outlives the \<^verbatim>\<open>try\<close> block exactly when
  the transcription service raises; after a download that failed it is always left.
\<close>

lemma voice_try_file:
  assumes "msg_voice m = Some file_id" and "get_file ev file_id = Inr file_path"
    and "download_file ev file_path (voice_path_of file_id) = None"
  shows "voice_path_of file_id \<in> files (snd (voice_try ev m cid uid w)) \<longleftrightarrow>
           (\<exists>e. transcribe_audio ev (voice_path_of file_id) = Inl e)"
    and "voice_path_of file_id \<in> files (snd (business_voice_try ev m cid uid conn w)) \<longleftrightarrow>
           (\<exists>e. transcribe_audio ev (voice_path_of file_id) = Inl e)"
  using assms
  by (auto simp: voice_try_def voice_except_def business_voice_try_def
      business_voice_except_def os_remove_def db_defs Let_def split: sum.splits)

lemma voice_try_file_failed_download:
  assumes "msg_voice m = Some file_id" and "get_file ev file_id = Inr file_path"
    and "download_file ev file_path (voice_path_of file_id) = Some e"
  shows "voice_path_of file_id \<in> files (snd (voice_try ev m cid uid w))"
    and "voice_path_of file_id \<in> files (snd (business_voice_try ev m cid uid conn w))"
  using assms
  by (simp_all add: voice_try_def voice_except_def business_voice_try_def
      business_voice_except_def db_defs Let_def)

text \<open>
  C1 says that the temporary file of a downloaded voice note is deleted on every exit path
  of the handler.  The source deletes it on the success path only: when the download
  succeeds and the transcription service raises, both voice handlers return with the file
  \<^verbatim>\<open>/tmp/voice_abc.ogg\<close> still present.
\<close>

theorem voice_file_left_when_transcription_fails:
  "fst (handle_voice env_whisper_down voice_message alice_authorized) = Returned \<and>
   files (snd (handle_voice env_whisper_down voice_message alice_authorized)) =
     {''/tmp/voice_abc.ogg''} \<and>
   fst (handle_business_voice env_whisper_down biz_voice_message biz_world) = Returned \<and>
   files (snd (handle_business_voice env_whisper_down biz_voice_message biz_world)) =
     {''/tmp/voice_abc.ogg''}"
  by (simp add: fixtures handler_defs db_defs Let_def)

subsection \<open>The transcription switch of a chat\<close>

text \<open>
  C4 as the claim states it, for every chat id: setting the switch and reading it back
  gives the value set.  It fails for a chat without a stored row, where
  \<^verbatim>\<open>set_transcription_enabled\<close> is an \<^verbatim>\<open>UPDATE\<close> that matches nothing and the read
  falls back to \<open>True\<close>.
\<close>

theorem set_then_read_unknown_chat_counterexample:
  "is_transcription_enabled 1 (set_transcription_enabled 1 False empty_world) \<noteq> False"
  by (simp add: db_defs fixtures)

text \<open>
  C4, amended: for a chat with a stored row, setting the switch and reading it back gives
  the value set; for a chat without a row the setter leaves the table as it is and the
  read gives \<open>True\<close>, before and after; setting the same value twice leaves the table as
  setting it once.
\<close>

theorem set_then_read_transcription_enabled:
  "(chats w cid \<noteq> None \<longrightarrow>
      is_transcription_enabled cid (set_transcription_enabled cid b w) = b) \<and>
   (chats w cid = None \<longrightarrow>
      chats (set_transcription_enabled cid b w) = chats w \<and>
      is_transcription_enabled cid w \<and>
      is_transcription_enabled cid (set_transcription_enabled cid b w)) \<and>
   chats (set_transcription_enabled cid b (set_transcription_enabled cid b w)) =
     chats (set_transcription_enabled cid b w)"
  by (auto simp: db_defs split: option.splits)

theorem set_then_read_transcription_enabled_witness:
  "chats (add_chat 5 ''group'' None empty_world) 5 \<noteq> None \<and>
   is_transcription_enabled 5
     (set_transcription_enabled 5 False (add_chat 5 ''group'' None empty_world)) = False \<and>
   chats empty_world 5 = None \<and>
   is_transcription_enabled 5 (set_transcription_enabled 5 False empty_world)"
  using set_then_read_transcription_enabled [of "add_chat 5 ''group'' None empty_world" 5 False]
    set_then_read_transcription_enabled [of empty_world 5 False]
  by (simp add: db_defs fixtures)

subsection \<open>Business connections\<close>

text \<open>
  C7: a lifecycle event with \<^verbatim>\<open>is_enabled\<close> false sets \<^verbatim>\<open>is_active\<close> of the stored row
  to false and keeps the row; an event with \<^verbatim>\<open>is_enabled\<close> true stores the row, new or
  not, with \<^verbatim>\<open>is_active\<close> true; the rows of other connections stay as they are, and
  no row of the table disappears.
\<close>

theorem business_connection_soft_delete:
  "(bcn_is_enabled bc \<longrightarrow>
      business_connections (snd (handle_business_connection bc w)) (bcn_id bc) =
        Some \<lparr>bc_user_id = tu_id (bcn_user bc), bc_user_chat_id = bcn_user_chat_id bc,
              bc_is_active = True\<rparr>) \<and>
   (\<not> bcn_is_enabled bc \<longrightarrow>
      business_connections (snd (handle_business_connection bc w)) (bcn_id bc) =
        map_option (\<lambda>row. row\<lparr>bc_is_active := False\<rparr>) (business_connections w (bcn_id bc))) \<and>
   (\<forall>k. k \<noteq> bcn_id bc \<longrightarrow>
      business_connections (snd (handle_business_connection bc w)) k =
        business_connections w k) \<and>
   dom (business_connections w) \<subseteq>
     dom (business_connections (snd (handle_business_connection bc w)))"
  by (auto simp: handle_business_connection_def db_defs Let_def split: option.splits)

theorem business_connection_soft_delete_witness:
  "\<not> bcn_is_enabled biz_disable \<and>
   business_connections biz_world ''biz1'' =
     Some \<lparr>bc_user_id = 42, bc_user_chat_id = 42, bc_is_active = True\<rparr> \<and>
   business_connections (snd (handle_business_connection biz_disable biz_world)) ''biz1'' =
     Some \<lparr>bc_user_id = 42, bc_user_chat_id = 42, bc_is_active = False\<rparr> \<and>
   bcn_is_enabled biz_enable \<and>
   business_connections
     (snd (handle_business_connection biz_enable
        (snd (handle_business_connection biz_disable biz_world)))) ''biz1'' =
     Some \<lparr>bc_user_id = 42, bc_user_chat_id = 42, bc_is_active = True\<rparr>"
  using business_connection_soft_delete [of biz_disable biz_world]
    business_connection_soft_delete
      [of biz_enable "snd (handle_business_connection biz_disable biz_world)"]
  by (simp add: fixtures handler_defs db_defs Let_def)

text \<open>
  C9: once a disabling event has been handled, the lookup of that connection finds nothing;
  and while the lookup finds nothing, a business text or voice message carrying that
  connection id leaves the store, the files and the pending queries as they are, calls no
  service and sends nothing: the text handler returns the world unchanged, the voice
  handler adds one warning to the log.
\<close>

theorem inactive_connection_drops_business_messages:
  "(\<not> bcn_is_enabled bc \<longrightarrow>
      get_business_connection (bcn_id bc) (snd (handle_business_connection bc w)) = None) \<and>
   (msg_business_connection_id m = Some conn \<and> get_business_connection conn w = None \<longrightarrow>
      handle_business_text m w = (Returned, w) \<and>
      handle_business_voice ev m w =
        (Returned, if conn = [] then w else emit (Log Warning) w))"
  by (auto simp: handle_business_connection_def handle_business_text_def
      handle_business_voice_def db_defs Let_def split: option.splits)

theorem inactive_connection_drops_business_messages_witness:
  "\<not> bcn_is_enabled biz_disable \<and>
   msg_business_connection_id biz_voice_message = Some ''biz1'' \<and>
   get_business_connection ''biz1'' (snd (handle_business_connection biz_disable biz_world)) = None \<and>
   handle_business_text biz_text_message (snd (handle_business_connection biz_disable biz_world)) =
     (Returned, snd (handle_business_connection biz_disable biz_world)) \<and>
   new_effects (snd (handle_business_connection biz_disable biz_world))
     (snd (handle_business_voice env_ok biz_voice_message
        (snd (handle_business_connection biz_disable biz_world)))) = [Log Warning]"
  using inactive_connection_drops_business_messages
      [where bc = biz_disable and w = biz_world and m = biz_text_message and conn = "''biz1''"]
    inactive_connection_drops_business_messages
      [where w = "snd (handle_business_connection biz_disable biz_world)"
         and m = biz_text_message and conn = "''biz1''"]
    inactive_connection_drops_business_messages
      [where w = "snd (handle_business_connection biz_disable biz_world)"
         and m = biz_voice_message and conn = "''biz1''" and ev = env_ok]
  by (simp add: fixtures handler_defs db_defs Let_def new_effects_def)

text \<open>
  C10: over an active connection, the row stored for a business text message, for a
  business voice message in a chat with transcription off, and for a business voice
  message that was transcribed, has \<open>user_id\<close> 0 when the message has no sender and the
  sender's id otherwise.
\<close>

theorem business_message_sender_id:
  "msg_business_connection_id m = Some conn \<and> conn \<noteq> [] \<and>
   get_business_connection conn w \<noteq> None \<longrightarrow>
     messages (snd (handle_business_text m w)) = messages w @
       [\<lparr>m_message_id = Suc (length (messages w)), m_chat_id = tc_id (msg_chat m),
         m_user_id = (case msg_from_user m of None \<Rightarrow> 0 | Some u \<Rightarrow> tu_id u),
         m_message_text = msg_text m, m_message_date = msg_date m, m_is_voice = False,
         m_transcription = None\<rparr>] \<and>
     (\<not> is_transcription_enabled (tc_id (msg_chat m)) w \<longrightarrow>
        messages (snd (handle_business_voice ev m w)) = messages w @
          [\<lparr>m_message_id = Suc (length (messages w)), m_chat_id = tc_id (msg_chat m),
            m_user_id = (case msg_from_user m of None \<Rightarrow> 0 | Some u \<Rightarrow> tu_id u),
            m_message_text = None, m_message_date = msg_date m, m_is_voice = True,
            m_transcription = None\<rparr>]) \<and>
     (is_transcription_enabled (tc_id (msg_chat m)) w \<and> msg_voice m = Some file_id \<and>
      get_file ev file_id = Inr file_path \<and>
      download_file ev file_path (voice_path_of file_id) = None \<and>
      transcribe_audio ev (voice_path_of file_id) = Inr t \<longrightarrow>
        messages (snd (handle_business_voice ev m w)) = messages w @
          [\<lparr>m_message_id = Suc (length (messages w)), m_chat_id = tc_id (msg_chat m),
            m_user_id = (case msg_from_user m of None \<Rightarrow> 0 | Some u \<Rightarrow> tu_id u),
            m_message_text = None, m_message_date = msg_date m, m_is_voice = True,
            m_transcription = Some t\<rparr>])"
  by (auto simp: handler_defs db_defs Let_def split: option.splits)

theorem business_message_sender_id_witness:
  "msg_business_connection_id biz_text_message = Some ''biz1'' \<and>
   get_business_connection ''biz1'' biz_world \<noteq> None \<and>
   msg_from_user biz_text_message = None \<and>
   map m_user_id (messages (snd (handle_business_text biz_text_message biz_world))) = [0] \<and>
   is_transcription_enabled 77 biz_world \<and>
   map m_user_id (messages (snd (handle_business_voice env_ok biz_voice_message biz_world))) = [0] \<and>
   map m_user_id
     (messages (snd (handle_business_text (biz_text_message\<lparr>msg_from_user := Some alice\<rparr>)
        biz_world))) = [42]"
  using business_message_sender_id
      [where m = biz_text_message and conn = "''biz1''" and w = biz_world]
    business_message_sender_id
      [where m = biz_voice_message and conn = "''biz1''" and w = biz_world and ev = env_ok
         and file_id = "''abc''" and file_path = "''voice/file_1.oga''" and t = "''hello world''"]
    business_message_sender_id
      [where m = "biz_text_message\<lparr>msg_from_user := Some alice\<rparr>" and conn = "''biz1''"
         and w = biz_world]
  by (simp add: fixtures handler_defs db_defs Let_def)

subsection \<open>Users that are not authorized\<close>

text \<open>
  C3 as the claim states it: a voice event from a user who is not authorized produces no
  user-visible output.  It fails: \<^verbatim>\<open>handle_voice\<close> answers such a user with the
  not-authorized notice.
\<close>

theorem unauthorized_voice_is_answered_counterexample:
  "\<not> is_user_authorized 42 empty_world \<and>
   new_effects empty_world (snd (handle_voice env_ok voice_message empty_world)) =
     [Message_answer Not_authorized None]"
  by (simp add: fixtures handler_defs db_defs Let_def new_effects_def)

text \<open>
  C3, amended: for a text or voice event from a user who is not authorized, no Chat row
  and no Message row is created; a text event outside a pending custom query changes
  nothing and sends nothing; a voice event sends the not-authorized notice and does
  nothing else; and \<^verbatim>\<open>/start\<close> authorizes the user whatever the flag was.
\<close>

theorem unauthorized_events_store_nothing:
  "msg_from_user m = Some u \<and> \<not> is_user_authorized (tu_id u) w \<longrightarrow>
     handle_voice ev m w = (Returned, emit (Message_answer Not_authorized None) w) \<and>
     (fsm_state (fsm w ctx) \<noteq> Some Waiting_for_custom_query \<longrightarrow>
        handle_text ev ctx m w = (Returned, w)) \<and>
     chats (snd (handle_text ev ctx m w)) = chats w \<and>
     messages (snd (handle_text ev ctx m w)) = messages w \<and>
     is_user_authorized (tu_id u) (snd (cmd_start m w))"
  by (auto simp: handler_defs db_defs Let_def split: option.splits sum.splits)

theorem unauthorized_events_store_nothing_witness:
  "msg_from_user text_message = Some alice \<and> \<not> is_user_authorized (tu_id alice) empty_world \<and>
   fsm_state (fsm empty_world 0) \<noteq> Some Waiting_for_custom_query \<and>
   handle_text env_ok 0 text_message empty_world = (Returned, empty_world) \<and>
   msg_from_user voice_message = Some alice \<and>
   chats (snd (handle_voice env_ok voice_message empty_world)) = Map.empty \<and>
   messages (snd (handle_voice env_ok voice_message empty_world)) = [] \<and>
   is_user_authorized 42 (snd (cmd_start text_message empty_world))"
  using unauthorized_events_store_nothing
      [where m = text_message and u = alice and w = empty_world and ev = env_ok and ctx = 0]
    unauthorized_events_store_nothing
      [where m = voice_message and u = alice and w = empty_world and ev = env_ok and ctx = 0]
  by (simp add: fixtures db_defs)

subsection \<open>Voice notes in a chat with transcription off\<close>

text \<open>
  C5 as the claim states it: every voice event in a chat whose transcription is off
  appends a Message.  It fails for a sender who is not authorized: the handler returns
  before the store is touched.
\<close>

theorem muted_voice_of_stranger_not_stored_counterexample:
  "chats stranger_muted 42 =
     Some \<lparr>c_chat_type = ''private'', c_title = Some ''Alice'',
           c_transcription_enabled = False\<rparr> \<and>
   messages (snd (handle_voice env_ok voice_message stranger_muted)) = messages stranger_muted"
  by (simp add: fixtures handler_defs db_defs Let_def)

text \<open>
  C5, amended: for a voice event in a chat whose stored row has transcription off, neither
  voice handler asks for the file, downloads it or calls the transcription service, and
  no file is created; when the event passes the handler's gate (a sender who is
  authorized, on the direct path; a connection id whose connection is active, on the
  business path) exactly one Message is appended, with \<open>is_voice\<close> true, no text and no
  transcript.
\<close>

theorem muted_chat_voice_not_transcribed:
  "chats w (tc_id (msg_chat m)) = Some row \<and> \<not> c_transcription_enabled row \<longrightarrow>
     (\<forall>e \<in> set (new_effects w (snd (handle_voice ev m w))). \<not> touches_audio e) \<and>
     (\<forall>e \<in> set (new_effects w (snd (handle_business_voice ev m w))). \<not> touches_audio e) \<and>
     files (snd (handle_voice ev m w)) = files w \<and>
     files (snd (handle_business_voice ev m w)) = files w \<and>
     (msg_from_user m = Some u \<and> is_user_authorized (tu_id u) w \<longrightarrow>
        messages (snd (handle_voice ev m w)) = messages w @
          [\<lparr>m_message_id = Suc (length (messages w)), m_chat_id = tc_id (msg_chat m),
            m_user_id = tu_id u, m_message_text = None, m_message_date = msg_date m,
            m_is_voice = True, m_transcription = None\<rparr>]) \<and>
     (msg_business_connection_id m = Some conn \<and> conn \<noteq> [] \<and>
      get_business_connection conn w \<noteq> None \<longrightarrow>
        messages (snd (handle_business_voice ev m w)) = messages w @
          [\<lparr>m_message_id = Suc (length (messages w)), m_chat_id = tc_id (msg_chat m),
            m_user_id = business_user_id m, m_message_text = None,
            m_message_date = msg_date m, m_is_voice = True, m_transcription = None\<rparr>])"
  by (auto simp: handle_voice_def handle_business_voice_def db_defs Let_def new_effects_def
      touches_audio_def split: option.splits)

theorem muted_chat_voice_not_transcribed_witness:
  "chats alice_muted (tc_id (msg_chat voice_message)) =
     Some \<lparr>c_chat_type = ''private'', c_title = Some ''Alice'',
           c_transcription_enabled = False\<rparr> \<and>
   msg_from_user voice_message = Some alice \<and> is_user_authorized (tu_id alice) alice_muted \<and>
   new_effects alice_muted (snd (handle_voice env_ok voice_message alice_muted)) =
     [Db_add_message 42] \<and>
   messages (snd (handle_voice env_ok voice_message alice_muted)) =
     [\<lparr>m_message_id = 1, m_chat_id = 42, m_user_id = 42, m_message_text = None,
       m_message_date = 1000, m_is_voice = True, m_transcription = None\<rparr>] \<and>
   chats biz_muted (tc_id (msg_chat biz_voice_message)) =
     Some \<lparr>c_chat_type = ''business'', c_title = Some ''Business Chat'',
           c_transcription_enabled = False\<rparr> \<and>
   msg_business_connection_id biz_voice_message = Some ''biz1'' \<and>
   get_business_connection ''biz1'' biz_muted \<noteq> None \<and>
   messages (snd (handle_business_voice env_ok biz_voice_message biz_muted)) =
     [\<lparr>m_message_id = 1, m_chat_id = 77, m_user_id = 0, m_message_text = None,
       m_message_date = 1002, m_is_voice = True, m_transcription = None\<rparr>]"
  using muted_chat_voice_not_transcribed
      [where w = alice_muted and m = voice_message and u = alice and ev = env_ok]
    muted_chat_voice_not_transcribed
      [where w = biz_muted and m = biz_voice_message and conn = "''biz1''" and ev = env_ok]
  by (simp add: fixtures handler_defs db_defs Let_def new_effects_def)

subsection \<open>Analysis of a chat without history\<close>

text \<open>
  The answer of the messages query, whatever the order of rows with equal dates: it is
  there exactly for an identifier in range, holds rows of that chat only, as many as the
  limit allows, newest first; and it is empty exactly when the chat has no row (or the
  limit is 0).
\<close>

lemma get_chat_messages_answer:
  assumes "get_chat_messages tie cid n w = Inr ms"
  shows "in_bigint cid"
    and "set ms \<subseteq> {r \<in> set (messages w). m_chat_id r = cid}"
    and "length ms = min n (length (filter (\<lambda>r. m_chat_id r = cid) (messages w)))"
    and "sorted (rev (map m_message_date ms))"
proof -
  let ?rows = "filter (\<lambda>r. m_chat_id r = cid) (messages w)"
  let ?asc = "sort_key m_message_date (sort_key tie ?rows)"
  from assms show r: "in_bigint cid"
    by (simp add: get_chat_messages_def split: if_splits)
  with assms have ms: "ms = take n (rev ?asc)"
    by (simp add: get_chat_messages_def)
  have "set ms \<subseteq> set (rev ?asc)" unfolding ms by (rule set_take_subset)
  then show "set ms \<subseteq> {r \<in> set (messages w). m_chat_id r = cid}" by auto
  show "length ms = min n (length ?rows)" by (simp add: ms)
  have "sorted (map m_message_date ?asc)" by (rule sorted_sort_key)
  then have "sorted (drop (length ?asc - n) (map m_message_date ?asc))"
    by (rule sorted_wrt_drop)
  then show "sorted (rev (map m_message_date ms))"
    by (simp add: ms take_rev rev_map drop_map)
qed

lemma get_chat_messages_empty:
  "get_chat_messages tie cid n w = Inr [] \<longleftrightarrow>
     in_bigint cid \<and> (n = 0 \<or> filter (\<lambda>r. m_chat_id r = cid) (messages w) = [])"
proof (cases "in_bigint cid")
  case False
  then show ?thesis by (simp add: get_chat_messages_def)
next
  case True
  then obtain ms where ms: "get_chat_messages tie cid n w = Inr ms"
    "length ms = min (length (filter (\<lambda>r. m_chat_id r = cid) (messages w))) n"
    by (simp add: get_chat_messages_def)
  then show ?thesis using True
    by (cases n) (auto simp: min_def split: if_splits)
qed

text \<open>
  An identifier out of range is no chat id: the query raises, the handler sends nothing
  and leaves the world, a pending query included, as it is.
\<close>

lemma analysis_of_identifier_out_of_range:
  "\<not> in_bigint cid \<Longrightarrow> chat_id_of_data (cb_data cb) = Inr cid \<Longrightarrow>
     split CHR ''_'' (cb_data cb) ! 1 \<noteq> ''custom'' \<Longrightarrow>
     callback_analyze ev ctx cb w = (Raised DataError, w)"
  "\<not> in_bigint cid \<Longrightarrow> msg_from_user m = Some u \<Longrightarrow>
     fsm w ctx = \<lparr>fsm_state = Some Waiting_for_custom_query, fsm_chat_id = Some cid\<rparr> \<Longrightarrow>
     handle_text ev ctx m w = (Raised DataError, w)"
  by (auto simp: callback_analyze_def handle_text_def Let_def get_chat_messages_def
      chat_id_of_data_def split: if_splits option.splits)

text \<open>Two callback data that the handler does not get past: white space that \<^verbatim>\<open>int\<close>
  does not strip, and an identifier one beyond the largest BIGINT.\<close>

lemma callback_data_not_a_chat_id:
  "chat_id_of_data (''analyze_summary_'' @ [CHR 0x1F] @ ''100'') = Inl ValueError"
  "callback_analyze env_ok 0
     (summary_query\<lparr>cb_data := ''analyze_summary_9223372036854775808''\<rparr>) empty_world =
     (Raised DataError, empty_world)"
  by (simp_all add: callback_analyze_def get_chat_messages_def in_bigint_def parse_defs
      fixtures Let_def)

text \<open>
  C6, for a chat id, that is a value of the BIGINT column \<^verbatim>\<open>chat_id\<close>: when no stored
  Message has that id, an analysis request in a fixed mode (a callback whose data names a
  mode other than \<^verbatim>\<open>custom\<close> and that chat) and a custom request (a text arriving
  while a custom query for that chat is pending) both end in the "no messages" notice.
  The source has no exception named \<open>NoHistoryError\<close>: the failure the claim speaks of
  is this branch, in which the handler sends the notice and returns normally.  Nothing
  else is sent, neither entry point of the analysis service is called, no AnalysisResult
  row is added, and on the custom path the pending query is cleared.  The callback that
  only opens a custom query calls no service and adds no row either.
\<close>

theorem analysis_without_history_refused:
  "in_bigint cid \<and> filter (\<lambda>r. m_chat_id r = cid) (messages w) = [] \<longrightarrow>
     (chat_id_of_data (cb_data cb) = Inr cid \<and>
      split CHR ''_'' (cb_data cb) ! 1 \<noteq> ''custom'' \<longrightarrow>
        callback_analyze ev ctx cb w = (Returned, emit (Cb_answer (Some No_messages) True) w) \<and>
        analysis_results (snd (callback_analyze ev ctx cb w)) = analysis_results w \<and>
        (\<forall>e \<in> set (new_effects w (snd (callback_analyze ev ctx cb w))). \<not> calls_analysis e)) \<and>
     (chat_id_of_data (cb_data cb) = Inr cid \<and>
      split CHR ''_'' (cb_data cb) ! 1 = ''custom'' \<longrightarrow>
        analysis_results (snd (callback_analyze ev ctx cb w)) = analysis_results w \<and>
        (\<forall>e \<in> set (new_effects w (snd (callback_analyze ev ctx cb w))). \<not> calls_analysis e)) \<and>
     (msg_from_user m = Some u \<and>
      fsm w ctx = \<lparr>fsm_state = Some Waiting_for_custom_query, fsm_chat_id = Some cid\<rparr> \<longrightarrow>
        handle_text ev ctx m w =
          (Returned, state_clear ctx (emit (Message_answer No_messages None) w)) \<and>
        analysis_results (snd (handle_text ev ctx m w)) = analysis_results w \<and>
        (\<forall>e \<in> set (new_effects w (snd (handle_text ev ctx m w))). \<not> calls_analysis e) \<and>
        fsm (snd (handle_text ev ctx m w)) ctx = \<lparr>fsm_state = None, fsm_chat_id = None\<rparr>)"
proof (intro impI conjI; elim conjE)
  assume r: "in_bigint cid" and e: "filter (\<lambda>r. m_chat_id r = cid) (messages w) = []"
  then have q: "get_chat_messages (row_order ev) cid 300 w = Inr []"
    by (simp add: get_chat_messages_empty)
  {
    assume p: "chat_id_of_data (cb_data cb) = Inr cid"
      and m: "split CHR ''_'' (cb_data cb) ! 1 \<noteq> ''custom''"
    from p have len: "\<not> length (split CHR ''_'' (cb_data cb)) < 2"
      by (auto simp: chat_id_of_data_def Let_def split: if_splits)
    show run: "callback_analyze ev ctx cb w =
        (Returned, emit (Cb_answer (Some No_messages) True) w)"
      using p m len q by (simp add: callback_analyze_def Let_def)
    show "analysis_results (snd (callback_analyze ev ctx cb w)) = analysis_results w"
      by (simp add: run emit_def)
    show "\<forall>e \<in> set (new_effects w (snd (callback_analyze ev ctx cb w))). \<not> calls_analysis e"
      by (simp add: run emit_def new_effects_def calls_analysis_def)
  }
  {
    assume p: "chat_id_of_data (cb_data cb) = Inr cid"
      and m: "split CHR ''_'' (cb_data cb) ! 1 = ''custom''"
    from p have len: "\<not> length (split CHR ''_'' (cb_data cb)) < 2"
      by (auto simp: chat_id_of_data_def Let_def split: if_splits)
    show "analysis_results (snd (callback_analyze ev ctx cb w)) = analysis_results w"
      using p m len
      by (simp add: callback_analyze_def Let_def state_set_custom_def on_message_def emit_def
          split: option.splits)
    show "\<forall>e \<in> set (new_effects w (snd (callback_analyze ev ctx cb w))). \<not> calls_analysis e"
      using p m len
      by (simp add: callback_analyze_def Let_def state_set_custom_def on_message_def emit_def
          new_effects_def calls_analysis_def split: option.splits)
  }
  {
    assume u: "msg_from_user m = Some u"
      and f: "fsm w ctx = \<lparr>fsm_state = Some Waiting_for_custom_query, fsm_chat_id = Some cid\<rparr>"
    show run: "handle_text ev ctx m w =
          (Returned, state_clear ctx (emit (Message_answer No_messages None) w))"
      using u f q by (simp add: handle_text_def Let_def)
    show "analysis_results (snd (handle_text ev ctx m w)) = analysis_results w"
      by (simp add: run state_clear_def emit_def)
    show "\<forall>e \<in> set (new_effects w (snd (handle_text ev ctx m w))). \<not> calls_analysis e"
      by (simp add: run state_clear_def emit_def new_effects_def calls_analysis_def)
    show "fsm (snd (handle_text ev ctx m w)) ctx = \<lparr>fsm_state = None, fsm_chat_id = None\<rparr>"
      by (simp add: run state_clear_def emit_def)
  }
qed

theorem analysis_without_history_refused_witness:
  "in_bigint 100 \<and>
   filter (\<lambda>r. m_chat_id r = 100) (messages empty_world) = [] \<and>
   chat_id_of_data (cb_data summary_query) = Inr 100 \<and>
   split CHR ''_'' (cb_data summary_query) ! 1 = ''summary'' \<and>
   new_effects empty_world (snd (callback_analyze env_ok 0 summary_query empty_world)) =
     [Cb_answer (Some No_messages) True] \<and>
   analysis_results (snd (callback_analyze env_ok 0 summary_query empty_world)) = [] \<and>
   fsm (state_set_custom 0 100 empty_world) 0 =
     \<lparr>fsm_state = Some Waiting_for_custom_query, fsm_chat_id = Some 100\<rparr> \<and>
   new_effects empty_world
     (snd (handle_text env_ok 0 text_message (state_set_custom 0 100 empty_world))) =
     [Message_answer No_messages None] \<and>
   fsm_state
     (fsm (snd (handle_text env_ok 0 text_message (state_set_custom 0 100 empty_world))) 0) =
     None"
  using analysis_without_history_refused
      [where cid = 100 and w = empty_world and cb = summary_query and ev = env_ok and ctx = 0]
    analysis_without_history_refused
      [where cid = 100 and w = "state_set_custom 0 100 empty_world" and m = text_message
         and u = alice and ev = env_ok and ctx = 0]
  by (simp add: fixtures parse_defs in_bigint_def state_set_custom_def state_clear_def emit_def
      new_effects_def)

subsection \<open>Callbacks and the users table\<close>

text \<open>
  Replacing the users table before a handler runs is the same as replacing it afterwards:
  the handler neither reads nor writes it.
\<close>

lemma stub_page_users:
  "stub_page cb p (w\<lparr>users := us\<rparr>) =
     (fst (stub_page cb p w), (snd (stub_page cb p w))\<lparr>users := us\<rparr>)"
  by (simp add: stub_page_def on_message_def emit_def split: option.splits)

lemma get_chat_messages_users:
  "get_chat_messages tie cid n (w\<lparr>users := us\<rparr>) = get_chat_messages tie cid n w"
  by (simp add: get_chat_messages_def)

lemma callback_analyze_users:
  "callback_analyze ev ctx cb (w\<lparr>users := us\<rparr>) =
     (fst (callback_analyze ev ctx cb w), (snd (callback_analyze ev ctx cb w))\<lparr>users := us\<rparr>)"
  by (simp add: callback_analyze_def on_message_def state_set_custom_def
      add_analysis_result_def get_chat_messages_users emit_def Let_def
      split: option.splits sum.splits)

lemma callback_chat_users:
  "callback_chat_actions cb (w\<lparr>users := us\<rparr>) =
     (fst (callback_chat_actions cb w), (snd (callback_chat_actions cb w))\<lparr>users := us\<rparr>)"
  "callback_chat_settings cb (w\<lparr>users := us\<rparr>) =
     (fst (callback_chat_settings cb w), (snd (callback_chat_settings cb w))\<lparr>users := us\<rparr>)"
  "callback_toggle_transcription cb (w\<lparr>users := us\<rparr>) =
     (fst (callback_toggle_transcription cb w),
      (snd (callback_toggle_transcription cb w))\<lparr>users := us\<rparr>)"
  "callback_back_to_menu ctx cb (w\<lparr>users := us\<rparr>) =
     (fst (callback_back_to_menu ctx cb w),
      (snd (callback_back_to_menu ctx cb w))\<lparr>users := us\<rparr>)"
  by (simp_all add: callback_chat_actions_def callback_chat_settings_def
      callback_toggle_transcription_def callback_back_to_menu_def on_message_def
      state_clear_def get_chat_def set_transcription_enabled_def emit_def Let_def
      split: option.splits sum.splits)

lemma dp_callback_query_users:
  "dp_callback_query ev ctx cb (w\<lparr>users := us\<rparr>) =
     (fst (dp_callback_query ev ctx cb w), (snd (dp_callback_query ev ctx cb w))\<lparr>users := us\<rparr>)"
  by (simp add: dp_callback_query_def Let_def callback_list_private_def
      callback_list_groups_def callback_list_channels_def callback_settings_def
      stub_page_users callback_chat_users callback_analyze_users)

lemma handle_text_pending_users:
  "fsm_state (fsm w ctx) = Some Waiting_for_custom_query \<Longrightarrow>
   handle_text ev ctx m (w\<lparr>users := us\<rparr>) =
     (fst (handle_text ev ctx m w), (snd (handle_text ev ctx m w))\<lparr>users := us\<rparr>)"
  by (simp add: handle_text_def state_clear_def add_analysis_result_def
      get_chat_messages_users emit_def Let_def split: option.splits sum.splits)

text \<open>
  C8: no callback handler, and not the branch of the text handler that consumes a pending
  custom query, depends on the users table, so none of them checks authorization: with
  any users table \<open>us\<close> in place of the stored one the handler does the same and leaves
  \<open>us\<close> as it is.  In particular, whatever \<open>us\<close> says about the requester, an
  \<^verbatim>\<open>analyze_\<close> callback in a fixed mode, and a text that answers a pending custom
  query, fetch the history of the chat; when the store answers with a list that is not
  empty (in whichever order it puts rows of equal date), they call the analysis service
  with that list, and when the service answers they append the AnalysisResult row.
\<close>

theorem callbacks_ignore_authorization:
  "dp_callback_query ev ctx cb (w\<lparr>users := us\<rparr>) =
     (fst (dp_callback_query ev ctx cb w), (snd (dp_callback_query ev ctx cb w))\<lparr>users := us\<rparr>) \<and>
   (fsm_state (fsm w ctx) = Some Waiting_for_custom_query \<longrightarrow>
      handle_text ev ctx m (w\<lparr>users := us\<rparr>) =
        (fst (handle_text ev ctx m w), (snd (handle_text ev ctx m w))\<lparr>users := us\<rparr>)) \<and>
   (chat_id_of_data (cb_data cb) = Inr cid \<and> split CHR ''_'' (cb_data cb) ! 1 = mode \<and>
    mode \<noteq> ''custom'' \<and> get_chat_messages (row_order ev) cid 300 w = Inr msgs \<and>
    msgs \<noteq> [] \<and> cb_message cb \<noteq> None \<and> analyze_messages ev msgs mode = Inr result \<longrightarrow>
      fst (callback_analyze ev ctx cb (w\<lparr>users := us\<rparr>)) = Returned \<and>
      Analyze_messages msgs mode \<in>
        set (new_effects w (snd (callback_analyze ev ctx cb (w\<lparr>users := us\<rparr>)))) \<and>
      analysis_results (snd (callback_analyze ev ctx cb (w\<lparr>users := us\<rparr>))) =
        analysis_results w @
          [\<lparr>ar_id = Suc (length (analysis_results w)), ar_chat_id = cid,
            ar_user_id = tu_id (cb_from_user cb), ar_analysis_type = mode,
            ar_result_text = result\<rparr>]) \<and>
   (msg_from_user m = Some u \<and>
    fsm w ctx = \<lparr>fsm_state = Some Waiting_for_custom_query, fsm_chat_id = Some cid\<rparr> \<and>
    get_chat_messages (row_order ev) cid 300 w = Inr msgs \<and> msgs \<noteq> [] \<and>
    custom_analysis ev msgs (msg_text m) = Inr result \<longrightarrow>
      fst (handle_text ev ctx m (w\<lparr>users := us\<rparr>)) = Returned \<and>
      Custom_analysis msgs (msg_text m) \<in>
        set (new_effects w (snd (handle_text ev ctx m (w\<lparr>users := us\<rparr>)))) \<and>
      analysis_results (snd (handle_text ev ctx m (w\<lparr>users := us\<rparr>))) =
        analysis_results w @
          [\<lparr>ar_id = Suc (length (analysis_results w)), ar_chat_id = cid,
            ar_user_id = tu_id u, ar_analysis_type = ''custom'',
            ar_result_text = result\<rparr>])"
proof (intro conjI impI)
  show "dp_callback_query ev ctx cb (w\<lparr>users := us\<rparr>) =
     (fst (dp_callback_query ev ctx cb w), (snd (dp_callback_query ev ctx cb w))\<lparr>users := us\<rparr>)"
    by (rule dp_callback_query_users)
next
  assume "fsm_state (fsm w ctx) = Some Waiting_for_custom_query"
  then show "handle_text ev ctx m (w\<lparr>users := us\<rparr>) =
        (fst (handle_text ev ctx m w), (snd (handle_text ev ctx m w))\<lparr>users := us\<rparr>)"
    by (rule handle_text_pending_users)
next
  assume a: "chat_id_of_data (cb_data cb) = Inr cid \<and> split CHR ''_'' (cb_data cb) ! 1 = mode \<and>
    mode \<noteq> ''custom'' \<and> get_chat_messages (row_order ev) cid 300 w = Inr msgs \<and>
    msgs \<noteq> [] \<and> cb_message cb \<noteq> None \<and> analyze_messages ev msgs mode = Inr result"
  then have len: "\<not> length (split CHR ''_'' (cb_data cb)) < 2"
    by (auto simp: chat_id_of_data_def Let_def split: if_splits)
  from a have msgs: "get_chat_messages (row_order ev) cid 300 (w\<lparr>users := us\<rparr>) = Inr msgs"
    by (simp add: get_chat_messages_users)
  from a obtain tm where tm: "cb_message cb = Some tm" by auto
  have run: "callback_analyze ev ctx cb (w\<lparr>users := us\<rparr>) =
     (Returned,
      emit (Cb_answer None False)
        (emit (Cb_message_answer Choose_action (Some (Chat_actions_keyboard cid)))
          (emit (Cb_edit_text (Analysis_result (titles mode) result) None)
            (add_analysis_result cid (tu_id (cb_from_user cb)) mode result
              (emit (Analyze_messages msgs mode)
                (emit (Cb_edit_text Analyzing None) (w\<lparr>users := us\<rparr>)))))))"
    using a len msgs tm by (simp add: callback_analyze_def on_message_def Let_def)
  show "fst (callback_analyze ev ctx cb (w\<lparr>users := us\<rparr>)) = Returned"
    by (simp add: run)
  show "Analyze_messages msgs mode \<in>
        set (new_effects w (snd (callback_analyze ev ctx cb (w\<lparr>users := us\<rparr>))))"
    by (simp add: run new_effects_def add_analysis_result_def emit_def)
  show "analysis_results (snd (callback_analyze ev ctx cb (w\<lparr>users := us\<rparr>))) =
        analysis_results w @
          [\<lparr>ar_id = Suc (length (analysis_results w)), ar_chat_id = cid,
            ar_user_id = tu_id (cb_from_user cb), ar_analysis_type = mode,
            ar_result_text = result\<rparr>]"
    by (simp add: run add_analysis_result_def emit_def)
next
  assume a: "msg_from_user m = Some u \<and>
    fsm w ctx = \<lparr>fsm_state = Some Waiting_for_custom_query, fsm_chat_id = Some cid\<rparr> \<and>
    get_chat_messages (row_order ev) cid 300 w = Inr msgs \<and> msgs \<noteq> [] \<and>
    custom_analysis ev msgs (msg_text m) = Inr result"
  then have msgs: "get_chat_messages (row_order ev) cid 300 (w\<lparr>users := us\<rparr>) = Inr msgs"
    by (simp add: get_chat_messages_users)
  have run: "handle_text ev ctx m (w\<lparr>users := us\<rparr>) =
     (Returned,
      state_clear ctx
        (emit (Message_answer Choose_action (Some (Chat_actions_keyboard cid)))
          (emit (Status_edit_text (Custom_result result))
            (add_analysis_result cid (tu_id u) ''custom'' result
              (emit (Custom_analysis msgs (msg_text m))
                (emit (Message_answer Analyzing None) (w\<lparr>users := us\<rparr>)))))))"
    using a msgs by (simp add: handle_text_def Let_def)
  show "fst (handle_text ev ctx m (w\<lparr>users := us\<rparr>)) = Returned"
    by (simp add: run)
  show "Custom_analysis msgs (msg_text m) \<in>
        set (new_effects w (snd (handle_text ev ctx m (w\<lparr>users := us\<rparr>))))"
    by (simp add: run new_effects_def add_analysis_result_def state_clear_def emit_def)
  show "analysis_results (snd (handle_text ev ctx m (w\<lparr>users := us\<rparr>))) =
        analysis_results w @
          [\<lparr>ar_id = Suc (length (analysis_results w)), ar_chat_id = cid,
            ar_user_id = tu_id u, ar_analysis_type = ''custom'',
            ar_result_text = result\<rparr>]"
    by (simp add: run add_analysis_result_def state_clear_def emit_def)
qed

theorem callbacks_ignore_authorization_witness:
  "\<not> is_user_authorized (tu_id (cb_from_user summary_query)) chat100_world \<and>
   chat_id_of_data (cb_data summary_query) = Inr 100 \<and>
   get_chat_messages (row_order env_ok) 100 300 chat100_world =
     Inr [\<lparr>m_message_id = 2, m_chat_id = 100, m_user_id = 7, m_message_text = Some ''second'',
            m_message_date = 501, m_is_voice = False, m_transcription = None\<rparr>,
          \<lparr>m_message_id = 1, m_chat_id = 100, m_user_id = 7, m_message_text = Some ''first'',
            m_message_date = 500, m_is_voice = False, m_transcription = None\<rparr>] \<and>
   cb_message summary_query \<noteq> None \<and>
   analysis_results (snd (callback_analyze env_ok 0 summary_query chat100_world)) =
     [\<lparr>ar_id = 1, ar_chat_id = 100, ar_user_id = 42, ar_analysis_type = ''summary'',
       ar_result_text = ''a result''\<rparr>] \<and>
   msg_from_user text_message = Some alice \<and>
   fsm chat100_pending 0 =
     \<lparr>fsm_state = Some Waiting_for_custom_query, fsm_chat_id = Some 100\<rparr> \<and>
   analysis_results (snd (handle_text env_ok 0 text_message chat100_pending)) =
     [\<lparr>ar_id = 1, ar_chat_id = 100, ar_user_id = 42, ar_analysis_type = ''custom'',
       ar_result_text = ''an answer''\<rparr>]"
  using callbacks_ignore_authorization
      [where w = chat100_world and us = Map.empty and cb = summary_query and cid = 100
         and mode = "''summary''" and ev = env_ok and ctx = 0 and result = "''a result''"
         and msgs = "projr (get_chat_messages (row_order env_ok) 100 300 chat100_world)"]
    callbacks_ignore_authorization
      [where w = chat100_pending and us = Map.empty and m = text_message and u = alice
         and cid = 100 and ev = env_ok and ctx = 0 and result = "''an answer''"
         and msgs = "projr (get_chat_messages (row_order env_ok) 100 300 chat100_pending)"]
  by (simp add: fixtures parse_defs db_defs in_bigint_def state_set_custom_def
      get_chat_messages_def)

subsection \<open>The chat row of a stored message\<close>

text \<open>
  C2 as the claim states it: whenever a handler stores a Message it has upserted the Chat
  first.  It fails for a voice note in a chat with transcription off: the handler stores
  the Message and never calls \<^verbatim>\<open>add_chat\<close>.
\<close>

theorem muted_voice_stored_without_upsert_counterexample:
  "is_user_authorized 42 alice_muted \<and>
   new_messages alice_muted (snd (handle_voice env_ok voice_message alice_muted)) =
     [\<lparr>m_message_id = 1, m_chat_id = 42, m_user_id = 42, m_message_text = None,
       m_message_date = 1000, m_is_voice = True, m_transcription = None\<rparr>] \<and>
   new_effects alice_muted (snd (handle_voice env_ok voice_message alice_muted)) =
     [Db_add_message 42] \<and>
   \<not> chat_known_at_insert {}
       (new_effects alice_muted (snd (handle_voice env_ok voice_message alice_muted)))"
  by (simp add: fixtures handler_defs db_defs Let_def new_effects_def new_messages_def)

lemma handle_text_chat_known:
  "chat_known_at_insert K (new_effects w (snd (handle_text ev ctx m w)))"
  by (simp add: handle_text_def state_clear_def db_defs Let_def new_effects_def
      split: option.splits sum.splits)

lemma handle_business_text_chat_known:
  "chat_known_at_insert K (new_effects w (snd (handle_business_text m w)))"
  by (simp add: handle_business_text_def db_defs Let_def new_effects_def split: option.splits)

lemma handle_text_new_messages:
  "r \<in> set (new_messages w (snd (handle_text ev ctx m w))) \<Longrightarrow>
   chats (snd (handle_text ev ctx m w)) (m_chat_id r) \<noteq> None"
  by (auto simp add: handle_text_def state_clear_def db_defs Let_def new_messages_def
      split: option.splits sum.splits if_splits)

lemma handle_business_text_new_messages:
  "r \<in> set (new_messages w (snd (handle_business_text m w))) \<Longrightarrow>
   chats (snd (handle_business_text m w)) (m_chat_id r) \<noteq> None"
  by (auto simp add: handle_business_text_def db_defs Let_def new_messages_def
      split: option.splits sum.splits if_splits)

text \<open>
  What a \<^verbatim>\<open>try\<close> block does to the trace, the messages and the chats: it upserts no
  chat, and every message it stores is in the chat it was given.
\<close>

lemma voice_try_run:
  "\<exists>es ms. trace (snd (voice_try ev m cid uid w)) = trace w @ es \<and>
           (\<forall>K. cid \<in> K \<longrightarrow> chat_known_at_insert K es) \<and>
           messages (snd (voice_try ev m cid uid w)) = messages w @ ms \<and>
           (\<forall>r \<in> set ms. m_chat_id r = cid) \<and>
           chats (snd (voice_try ev m cid uid w)) = chats w"
  by (simp add: voice_try_def voice_except_def os_remove_def db_defs Let_def
      split: option.splits sum.splits)

lemma business_voice_try_run:
  "\<exists>es ms. trace (snd (business_voice_try ev m cid uid conn w)) = trace w @ es \<and>
           (\<forall>K. cid \<in> K \<longrightarrow> chat_known_at_insert K es) \<and>
           messages (snd (business_voice_try ev m cid uid conn w)) = messages w @ ms \<and>
           (\<forall>r \<in> set ms. m_chat_id r = cid) \<and>
           chats (snd (business_voice_try ev m cid uid conn w)) = chats w"
  by (simp add: business_voice_try_def business_voice_except_def os_remove_def db_defs Let_def
      split: option.splits sum.splits)

lemma add_chat_then:
  assumes "trace w' = trace (add_chat cid ty ti w) @ es"
    and "\<forall>K. cid \<in> K \<longrightarrow> chat_known_at_insert K es"
  shows "chat_known_at_insert K (new_effects w w')"
  using assms by (simp add: new_effects_def add_chat_def emit_def)

lemma add_chat_then_messages:
  assumes "messages w' = messages (add_chat cid ty ti w) @ ms"
    and "\<forall>r \<in> set ms. m_chat_id r = cid"
    and "chats w' = chats (add_chat cid ty ti w)"
    and "r \<in> set (new_messages w w')"
  shows "chats w' (m_chat_id r) \<noteq> None"
  using assms by (auto simp: new_messages_def add_chat_def emit_def)

lemma handle_voice_enabled:
  assumes "msg_from_user m = Some u" and "is_user_authorized (tu_id u) w"
    and "is_transcription_enabled (tc_id (msg_chat m)) w"
  shows "handle_voice ev m w =
     voice_try ev m (tc_id (msg_chat m)) (tu_id u)
       (add_chat (tc_id (msg_chat m)) (tc_type (msg_chat m))
          (py_or (tc_title (msg_chat m)) (tc_first_name (msg_chat m))) w)"
  using assms by (simp add: handle_voice_def Let_def)

lemma handle_business_voice_enabled:
  assumes "msg_business_connection_id m = Some conn" and "conn \<noteq> []"
    and "get_business_connection conn w = Some c"
    and "is_transcription_enabled (tc_id (msg_chat m)) w"
  shows "handle_business_voice ev m w =
     business_voice_try ev m (tc_id (msg_chat m)) (business_user_id m) conn
       (add_chat (tc_id (msg_chat m)) ''business'' (business_title m) w)"
  using assms by (simp add: handle_business_voice_def Let_def)

lemma handle_voice_enabled_chat_known:
  assumes en: "is_transcription_enabled (tc_id (msg_chat m)) w"
  shows "chat_known_at_insert K (new_effects w (snd (handle_voice ev m w)))"
proof (cases "\<exists>u. msg_from_user m = Some u \<and> is_user_authorized (tu_id u) w")
  case False
  then show ?thesis
    by (auto simp: handle_voice_def new_effects_def emit_def Let_def split: option.splits)
next
  case True
  then obtain u where u: "msg_from_user m = Some u" "is_user_authorized (tu_id u) w"
    by blast
  show ?thesis
    unfolding handle_voice_enabled [OF u en]
    using voice_try_run add_chat_then by meson
qed

lemma handle_business_voice_enabled_chat_known:
  assumes en: "is_transcription_enabled (tc_id (msg_chat m)) w"
  shows "chat_known_at_insert K (new_effects w (snd (handle_business_voice ev m w)))"
proof (cases "\<exists>conn c. msg_business_connection_id m = Some conn \<and> conn \<noteq> [] \<and>
                 get_business_connection conn w = Some c")
  case False
  then show ?thesis
    by (auto simp: handle_business_voice_def new_effects_def emit_def Let_def
        split: option.splits)
next
  case True
  then obtain conn c where c: "msg_business_connection_id m = Some conn" "conn \<noteq> []"
      "get_business_connection conn w = Some c"
    by blast
  show ?thesis
    unfolding handle_business_voice_enabled [OF c en]
    using business_voice_try_run add_chat_then by meson
qed

lemma handle_voice_chat_known:
  "chat_known_at_insert (dom (chats w)) (new_effects w (snd (handle_voice ev m w)))"
proof (cases "is_transcription_enabled (tc_id (msg_chat m)) w")
  case True
  then show ?thesis by (rule handle_voice_enabled_chat_known)
next
  case False
  then show ?thesis
    by (auto simp: handle_voice_def new_effects_def Let_def db_defs split: option.splits)
qed

lemma handle_business_voice_chat_known:
  "chat_known_at_insert (dom (chats w)) (new_effects w (snd (handle_business_voice ev m w)))"
proof (cases "is_transcription_enabled (tc_id (msg_chat m)) w")
  case True
  then show ?thesis by (rule handle_business_voice_enabled_chat_known)
next
  case False
  then show ?thesis
    by (auto simp: handle_business_voice_def new_effects_def Let_def db_defs
        split: option.splits)
qed

lemma handle_voice_new_messages:
  assumes r: "r \<in> set (new_messages w (snd (handle_voice ev m w)))"
  shows "chats (snd (handle_voice ev m w)) (m_chat_id r) \<noteq> None"
proof (cases "\<exists>u. msg_from_user m = Some u \<and> is_user_authorized (tu_id u) w \<and>
                 is_transcription_enabled (tc_id (msg_chat m)) w")
  case False
  with r show ?thesis
    by (auto simp: handle_voice_def new_messages_def Let_def db_defs
        split: option.splits if_splits)
next
  case True
  then obtain u where u: "msg_from_user m = Some u" "is_user_authorized (tu_id u) w"
      "is_transcription_enabled (tc_id (msg_chat m)) w"
    by blast
  show ?thesis
    using r unfolding handle_voice_enabled [OF u]
    using voice_try_run add_chat_then_messages by meson
qed

lemma handle_business_voice_new_messages:
  assumes r: "r \<in> set (new_messages w (snd (handle_business_voice ev m w)))"
  shows "chats (snd (handle_business_voice ev m w)) (m_chat_id r) \<noteq> None"
proof (cases "\<exists>conn c. msg_business_connection_id m = Some conn \<and> conn \<noteq> [] \<and>
                 get_business_connection conn w = Some c \<and>
                 is_transcription_enabled (tc_id (msg_chat m)) w")
  case False
  with r show ?thesis
    by (auto simp: handle_business_voice_def new_messages_def Let_def db_defs
        split: option.splits if_splits)
next
  case True
  then obtain conn c where c: "msg_business_connection_id m = Some conn" "conn \<noteq> []"
      "get_business_connection conn w = Some c"
      "is_transcription_enabled (tc_id (msg_chat m)) w"
    by blast
  show ?thesis
    using r unfolding handle_business_voice_enabled [OF c]
    using business_voice_try_run add_chat_then_messages by meson
qed

text \<open>
  C2, amended: in each of the four handlers that store a Message, every insert finds a
  Chat row of the message's chat: the row is in the table when the handler starts, or the
  handler has upserted it earlier in the same run; and every Message the handler added
  has a Chat row in the store the handler leaves.  The text handlers always upsert first;
  the voice handlers upsert first when transcription is on for the chat.  (When it is off
  the row is already there, and the handlers store the Message without an upsert.)
\<close>

theorem chat_row_exists_when_message_stored:
  "chat_known_at_insert (dom (chats w)) (new_effects w (snd (handle_text ev ctx m w))) \<and>
   chat_known_at_insert (dom (chats w)) (new_effects w (snd (handle_voice ev m w))) \<and>
   chat_known_at_insert (dom (chats w)) (new_effects w (snd (handle_business_text m w))) \<and>
   chat_known_at_insert (dom (chats w)) (new_effects w (snd (handle_business_voice ev m w))) \<and>
   (\<forall>r \<in> set (new_messages w (snd (handle_text ev ctx m w))).
      chats (snd (handle_text ev ctx m w)) (m_chat_id r) \<noteq> None) \<and>
   (\<forall>r \<in> set (new_messages w (snd (handle_voice ev m w))).
      chats (snd (handle_voice ev m w)) (m_chat_id r) \<noteq> None) \<and>
   (\<forall>r \<in> set (new_messages w (snd (handle_business_text m w))).
      chats (snd (handle_business_text m w)) (m_chat_id r) \<noteq> None) \<and>
   (\<forall>r \<in> set (new_messages w (snd (handle_business_voice ev m w))).
      chats (snd (handle_business_voice ev m w)) (m_chat_id r) \<noteq> None) \<and>
   chat_known_at_insert {} (new_effects w (snd (handle_text ev ctx m w))) \<and>
   chat_known_at_insert {} (new_effects w (snd (handle_business_text m w))) \<and>
   (is_transcription_enabled (tc_id (msg_chat m)) w \<longrightarrow>
      chat_known_at_insert {} (new_effects w (snd (handle_voice ev m w))) \<and>
      chat_known_at_insert {} (new_effects w (snd (handle_business_voice ev m w))))"
proof (intro conjI ballI impI)
  show "chat_known_at_insert (dom (chats w)) (new_effects w (snd (handle_text ev ctx m w)))"
    and "chat_known_at_insert {} (new_effects w (snd (handle_text ev ctx m w)))"
    by (rule handle_text_chat_known)+
  show "chat_known_at_insert (dom (chats w)) (new_effects w (snd (handle_business_text m w)))"
    and "chat_known_at_insert {} (new_effects w (snd (handle_business_text m w)))"
    by (rule handle_business_text_chat_known)+
  show "chat_known_at_insert (dom (chats w)) (new_effects w (snd (handle_voice ev m w)))"
    by (rule handle_voice_chat_known)
  show "chat_known_at_insert (dom (chats w))
          (new_effects w (snd (handle_business_voice ev m w)))"
    by (rule handle_business_voice_chat_known)
next
  fix r assume "r \<in> set (new_messages w (snd (handle_text ev ctx m w)))"
  then show "chats (snd (handle_text ev ctx m w)) (m_chat_id r) \<noteq> None"
    by (rule handle_text_new_messages)
next
  fix r assume "r \<in> set (new_messages w (snd (handle_voice ev m w)))"
  then show "chats (snd (handle_voice ev m w)) (m_chat_id r) \<noteq> None"
    by (rule handle_voice_new_messages)
next
  fix r assume "r \<in> set (new_messages w (snd (handle_business_text m w)))"
  then show "chats (snd (handle_business_text m w)) (m_chat_id r) \<noteq> None"
    by (rule handle_business_text_new_messages)
next
  fix r assume "r \<in> set (new_messages w (snd (handle_business_voice ev m w)))"
  then show "chats (snd (handle_business_voice ev m w)) (m_chat_id r) \<noteq> None"
    by (rule handle_business_voice_new_messages)
next
  assume "is_transcription_enabled (tc_id (msg_chat m)) w"
  then show "chat_known_at_insert {} (new_effects w (snd (handle_voice ev m w)))"
    and "chat_known_at_insert {} (new_effects w (snd (handle_business_voice ev m w)))"
    by (rule handle_voice_enabled_chat_known handle_business_voice_enabled_chat_known)+
qed

theorem chat_row_exists_when_message_stored_witness:
  "is_transcription_enabled (tc_id (msg_chat voice_message)) alice_authorized \<and>
   new_effects alice_authorized (snd (handle_voice env_ok voice_message alice_authorized)) =
     [Db_add_chat 42, Get_file ''abc'',
      Download_file ''voice/file_1.oga'' ''/tmp/voice_abc.ogg'',
      Message_answer Transcribing None, Transcribe_audio ''/tmp/voice_abc.ogg'',
      Os_remove ''/tmp/voice_abc.ogg'', Db_add_message 42,
      Status_edit_text (Transcription ''hello world'')] \<and>
   chat_known_at_insert {}
     (new_effects alice_authorized (snd (handle_voice env_ok voice_message alice_authorized))) \<and>
   new_messages alice_authorized (snd (handle_voice env_ok voice_message alice_authorized)) =
     [\<lparr>m_message_id = 1, m_chat_id = 42, m_user_id = 42, m_message_text = None,
       m_message_date = 1000, m_is_voice = True, m_transcription = Some ''hello world''\<rparr>] \<and>
   chats (snd (handle_voice env_ok voice_message alice_authorized)) 42 \<noteq> None \<and>
   new_messages alice_muted (snd (handle_voice env_ok voice_message alice_muted)) =
     [\<lparr>m_message_id = 1, m_chat_id = 42, m_user_id = 42, m_message_text = None,
       m_message_date = 1000, m_is_voice = True, m_transcription = None\<rparr>] \<and>
   42 \<in> dom (chats alice_muted) \<and>
   chat_known_at_insert (dom (chats alice_muted))
     (new_effects alice_muted (snd (handle_voice env_ok voice_message alice_muted))) \<and>
   new_effects alice_authorized (snd (handle_text env_ok 0 text_message alice_authorized)) =
     [Db_add_chat 42, Db_add_message 42]"
  using chat_row_exists_when_message_stored
      [where w = alice_authorized and m = voice_message and ev = env_ok and ctx = 0]
    chat_row_exists_when_message_stored
      [where w = alice_muted and m = voice_message and ev = env_ok and ctx = 0]
    chat_row_exists_when_message_stored
      [where w = alice_authorized and m = text_message and ev = env_ok and ctx = 0]
  by (simp add: fixtures handler_defs db_defs Let_def new_effects_def new_messages_def)

end
